theory Spec2Isabelle
  imports Complex_Main
begin

section \<open>The foot-traffic simulation of \<open>simulate.py\<close>\<close>

text \<open>
  A shallow embedding of \<open>define_acs_variables\<close> and \<open>run_simulation\<close>. Hours of the
  day that Python holds as floats are real numbers here; the hour counter of the loops
  \<open>for hour in range(24)\<close> is a natural number. The values drawn from NumPy's global
  random generator are inputs of the model: the raw variates of one agent are a record
  \<open>draws\<close>, and the generator is a stream of such records with a position that
  advances by one for every simulated agent.
\<close>

subsection \<open>Data\<close>

datatype mode = wfh | drive | carpool | transit | walk | other

text \<open>The exceptions that the simulation loop can see.\<close>

datatype py_exn = IndexError | ValueError | TypeError | NetworkXNoPath | NodeNotFound

type_synonym node = nat

text \<open>
  A road edge is identified by the index of the edges frame, the triple
  \<open>(u, v, key)\<close>; \<open>home_edge.name\<close> is that triple, \<open>home_edge['u']\<close> its first
  component and \<open>work_edge['v']\<close> its second.
\<close>

type_synonym edge = "node \<times> node \<times> nat"

definition edge_u :: "edge \<Rightarrow> node" where
  "edge_u e = fst e"

definition edge_v :: "edge \<Rightarrow> node" where
  "edge_v e = fst (snd e)"

text \<open>
  \<open>hourly_foot_traffic[hour].loc[e, 'foot_traffic']\<close>: one counter per hour and edge.
  Every frame is a copy of the edges frame with the column set to 0, and every edge the
  code credits (a sampled row of that frame, or an edge of a route in the same graph) is
  a row of it, so a counter is a total function of the hour and the edge. Counts are
  unbounded integers.
\<close>

type_synonym traffic = "nat \<Rightarrow> edge \<Rightarrow> int"

definition no_traffic :: traffic where
  "no_traffic = (\<lambda>hour e. 0)"

text \<open>\<open>hourly_foot_traffic[hour].loc[e, 'foot_traffic'] += 1\<close>\<close>

definition credit :: "traffic \<Rightarrow> nat \<Rightarrow> edge \<Rightarrow> traffic" where
  "credit t hour e = t(hour := (t hour)(e := t hour e + 1))"

text \<open>A row of the LODES origin-destination table.\<close>

record flow =
  h_geocode :: string
  w_geocode :: string
  S000 :: int

text \<open>
  A row of the ACS table: the tract identifier and the worker count of every variable.
\<close>

record acs_row =
  GEOID :: string
  workers :: "string \<Rightarrow> int"

text \<open>
  The raw variates one agent takes from the random generator, in the order of the code:
  the row picked by \<open>roads_in_home_tract.sample(1)\<close>, the unit-interval variate of
  \<open>uniform(5, 9)\<close>, the standard normal variate of \<open>normal(9, 1)\<close>, the row picked by
  \<open>od_pairs.sample(1, weights='S000')\<close>, the row picked by
  \<open>roads_in_work_tract.sample(1)\<close>, the standard normal variate of the departure hour
  and the unit-interval variate of the commute duration.
\<close>

record draws =
  home_pick :: nat
  u_sleep :: real
  z_work_start :: real
  od_pick :: nat
  work_pick :: nat
  z_departure :: real
  u_commute :: real

text \<open>
  The inputs that the simulation only reads. A tract geometry is represented by the list
  of edges it intersects, which is all the code asks of it. \<open>shortest_path\<close> is
  \<open>ox.shortest_path(roads, source, target, weight='length')\<close>, a node list or the
  exception it raises; \<open>route_edges\<close> gives the \<open>(u, v, key)\<close> of every element of
  \<open>ox.utils_graph.get_route_edge_attributes(roads, path)\<close>.
\<close>

record world =
  edges :: "edge list"
  tracts_geo :: "string \<Rightarrow> edge list option"
  lodes_data :: "flow list"
  shortest_path :: "node \<Rightarrow> node \<Rightarrow> py_exn + node list"
  route_edges :: "node list \<Rightarrow> edge list"
  rng :: "nat \<Rightarrow> draws"

text \<open>The state the loops update: the 24 counters and the position of the generator.\<close>

record sim =
  hourly_foot_traffic :: traffic
  rng_pos :: nat

subsection \<open>Library operations\<close>

text \<open>Python's \<open>x % m\<close> on floats, for a positive \<open>m\<close>: the result lies in \<open>[0, m)\<close>.\<close>

definition py_mod :: "real \<Rightarrow> real \<Rightarrow> real" where
  "py_mod x m = x - m * of_int \<lfloor>x / m\<rfloor>"

text \<open>\<open>np.random.uniform(low, high)\<close> and \<open>np.random.normal(loc, scale)\<close> from their variates.\<close>

definition np_uniform :: "real \<Rightarrow> real \<Rightarrow> real \<Rightarrow> real" where
  "np_uniform u low high = low + (high - low) * u"

definition np_normal :: "real \<Rightarrow> real \<Rightarrow> real \<Rightarrow> real" where
  "np_normal z loc scale = loc + scale * z"

text \<open>\<open>np.mean(time_window)\<close>; the window of the work-from-home variable is \<open>None\<close>.\<close>

definition np_mean :: "(real \<times> real) option \<Rightarrow> py_exn + real" where
  "np_mean w = (case w of None \<Rightarrow> Inl TypeError | Some (a, b) \<Rightarrow> Inr ((a + b) / 2))"

text \<open>\<open>frame.sample(1).iloc[0]\<close>: pandas raises ValueError on an empty frame.\<close>

definition sample1 :: "'a list \<Rightarrow> nat \<Rightarrow> py_exn + 'a" where
  "sample1 rows k = (if rows = [] then Inl ValueError else Inr (rows ! (k mod length rows)))"

text \<open>
  \<open>od_pairs.sample(1, weights='S000').iloc[0]\<close>: pandas raises ValueError when a weight
  is negative or when the weights sum to zero. Which row comes out is the variate; the
  weights shape its distribution only, and the distribution is not part of the model.
\<close>

definition sample_weighted :: "flow list \<Rightarrow> nat \<Rightarrow> py_exn + flow" where
  "sample_weighted rows k =
     (if rows = [] \<or> (\<exists>r \<in> set rows. S000 r < 0) \<or> sum_list (map S000 rows) = 0
      then Inl ValueError
      else Inr (rows ! (k mod length rows)))"

text \<open>A \<open>for\<close> loop whose body may raise: the first exception ends it.\<close>

fun for_each :: "('a \<Rightarrow> 's \<Rightarrow> py_exn + 's) \<Rightarrow> 'a list \<Rightarrow> 's \<Rightarrow> py_exn + 's" where
  "for_each body [] s = Inr s"
| "for_each body (x # xs) s =
     (case body x s of Inl e \<Rightarrow> Inl e | Inr s' \<Rightarrow> for_each body xs s')"

text \<open>\<open>range(n)\<close>, empty for a negative \<open>n\<close>.\<close>

definition py_range :: "int \<Rightarrow> nat list" where
  "py_range n = [0..<nat n]"

subsection \<open>\<open>define_acs_variables\<close>\<close>

definition time_windows :: "(real \<times> real) list" where
  "time_windows =
     [(0, 5), (5, 5.5), (5.5, 6), (6, 6.5), (6.5, 7), (7, 7.5), (7.5, 8), (8, 8.5),
      (8.5, 9), (9, 10), (10, 11), (11, 12), (12, 16), (16, 24)]"

definition modes :: "(mode \<times> nat list) list" where
  "modes = [(drive, [17..<31]), (carpool, [32..<46]), (transit, [47..<61]),
            (walk, [62..<76]), (other, [77..<91])]"

text \<open>The format \<open>{var_num:03}\<close>, for the numbers below 1000 that the ranges hold.\<close>

definition digit :: "nat \<Rightarrow> char" where
  "digit d = char_of (48 + d)"

definition fmt03 :: "nat \<Rightarrow> string" where
  "fmt03 n = [digit (n div 100 mod 10), digit (n div 10 mod 10), digit (n mod 10)]"

type_synonym variable = "string \<times> mode \<times> (real \<times> real) option"

definition define_acs_variables :: "variable list" where
  "define_acs_variables =
     (''B08006_017E'', wfh, None) #
     concat (map (\<lambda>(m, r).
               map (\<lambda>(i, var_num). (''B08132_'' @ fmt03 var_num @ ''E'', m, Some (time_windows ! i)))
                   (enumerate 0 r))
             modes)"

subsection \<open>One agent\<close>

text \<open>
  Lines 172--178, the day of a work-from-home agent: an hour is credited to the home
  edge unless \<open>sleep_start_hour <= hour < (sleep_start_hour + sleep_duration) % 24\<close>.
\<close>

definition wfh_asleep :: "real \<Rightarrow> real \<Rightarrow> nat \<Rightarrow> bool" where
  "wfh_asleep sleep_start_hour sleep_duration hour \<longleftrightarrow>
     sleep_start_hour \<le> real hour \<and>
     real hour < py_mod (sleep_start_hour + sleep_duration) 24"

definition wfh_hour :: "edge \<Rightarrow> real \<Rightarrow> real \<Rightarrow> nat \<Rightarrow> traffic \<Rightarrow> traffic" where
  "wfh_hour home_edge sleep_start_hour sleep_duration hour t =
     (if \<not> wfh_asleep sleep_start_hour sleep_duration hour
      then credit t hour home_edge else t)"

definition wfh_sleep_start :: "real \<Rightarrow> real \<Rightarrow> real" where
  "wfh_sleep_start work_start_hour sleep_duration =
     py_mod (work_start_hour - sleep_duration - 1 + 24) 24"

definition wfh_day :: "edge \<Rightarrow> real \<Rightarrow> real \<Rightarrow> traffic \<Rightarrow> traffic" where
  "wfh_day home_edge work_start_hour sleep_duration t =
     fold (wfh_hour home_edge (wfh_sleep_start work_start_hour sleep_duration) sleep_duration)
          [0..<24] t"

text \<open>Lines 195--201, the times of a commuting agent.\<close>

record schedule =
  departure_hour :: real
  arrival_hour :: real
  return_departure :: real
  return_arrival :: real
  sleep_start_hour :: real
  sleep_duration :: real

definition make_schedule :: "real \<Rightarrow> real \<Rightarrow> real \<Rightarrow> schedule" where
  "make_schedule departure commute sleep_dur =
     (let arrival = departure + commute;
          ret_departure = arrival + 8;
          ret_arrival = ret_departure + (arrival - departure)
      in \<lparr>departure_hour = departure, arrival_hour = arrival,
          return_departure = ret_departure, return_arrival = ret_arrival,
          sleep_start_hour = py_mod (departure - sleep_dur - 1 + 24) 24,
          sleep_duration = sleep_dur\<rparr>)"

text \<open>Lines 205--206.\<close>

definition is_sleeping :: "schedule \<Rightarrow> nat \<Rightarrow> bool" where
  "is_sleeping sc hour \<longleftrightarrow>
     (sleep_start_hour sc \<le> real hour \<and> real hour < sleep_start_hour sc + sleep_duration sc) \<or>
     (sleep_start_hour sc + sleep_duration sc > 24 \<and>
      real hour < py_mod (sleep_start_hour sc + sleep_duration sc) 24)"

text \<open>
  The five states of an hour, read off the branches of lines 208--229 in their order:
  the \<open>continue\<close> of a sleeping hour, the branches commented ``At home'', ``At work''
  and ``Commuting to work'', and the hours that reach no branch at all.
\<close>

datatype activity = asleep | at_home | at_work | commuting_out | commuting_back

definition hour_state :: "schedule \<Rightarrow> nat \<Rightarrow> activity" where
  "hour_state sc hour =
     (if is_sleeping sc hour then asleep
      else if real hour < departure_hour sc \<or> real hour \<ge> return_arrival sc then at_home
      else if arrival_hour sc \<le> real hour \<and> real hour < return_departure sc then at_work
      else if departure_hour sc \<le> real hour \<and> real hour < arrival_hour sc then commuting_out
      else commuting_back)"

text \<open>Lines 217--223: the route of a walking agent, or the home edge when there is none.\<close>

definition credit_path :: "traffic \<Rightarrow> nat \<Rightarrow> edge list \<Rightarrow> traffic" where
  "credit_path t hour path_edges = fold (\<lambda>e t'. credit t' hour e) path_edges t"

definition walk_commute :: "world \<Rightarrow> edge \<Rightarrow> edge \<Rightarrow> nat \<Rightarrow> traffic \<Rightarrow> py_exn + traffic" where
  "walk_commute w home_edge work_edge hour t =
     (case shortest_path w (edge_u home_edge) (edge_v work_edge) of
        Inr path \<Rightarrow> Inr (credit_path t hour (route_edges w path))
      | Inl NetworkXNoPath \<Rightarrow> Inr (credit t hour home_edge)
      | Inl e \<Rightarrow> Inl e)"

text \<open>Lines 205--229, the body of the loop over the hours of a commuting agent.\<close>

definition commute_hour ::
  "world \<Rightarrow> mode \<Rightarrow> edge \<Rightarrow> edge \<Rightarrow> schedule \<Rightarrow> nat \<Rightarrow> traffic \<Rightarrow> py_exn + traffic" where
  "commute_hour w m home_edge work_edge sc hour t =
     (if is_sleeping sc hour then Inr t
      else if real hour < departure_hour sc \<or> real hour \<ge> return_arrival sc
        then Inr (credit t hour home_edge)
      else if arrival_hour sc \<le> real hour \<and> real hour < return_departure sc
        then Inr (credit t hour work_edge)
      else if departure_hour sc \<le> real hour \<and> real hour < arrival_hour sc
        then (if m = walk \<or> m = other then walk_commute w home_edge work_edge hour t
              else if m = transit then Inr (credit (credit t hour home_edge) hour work_edge)
              else Inr t)
      else Inr t)"

definition commute_day ::
  "world \<Rightarrow> mode \<Rightarrow> edge \<Rightarrow> edge \<Rightarrow> schedule \<Rightarrow> traffic \<Rightarrow> py_exn + traffic" where
  "commute_day w m home_edge work_edge sc t =
     for_each (commute_hour w m home_edge work_edge sc) [0..<24] t"

text \<open>
  \<open>edges[edges.intersects(geom)]\<close> for the geometry of a tract, and the lookup
  \<open>tracts_geo[tracts_geo['GEOID'] == geoid].iloc[0].geometry\<close>, which raises IndexError
  when no row has the identifier.
\<close>

definition roads_in :: "world \<Rightarrow> edge list \<Rightarrow> edge list" where
  "roads_in w geom = filter (\<lambda>e. e \<in> set geom) (edges w)"

definition tract_geometry :: "world \<Rightarrow> string \<Rightarrow> py_exn + edge list" where
  "tract_geometry w geoid =
     (case tracts_geo w geoid of None \<Rightarrow> Inl IndexError | Some geom \<Rightarrow> Inr geom)"

text \<open>
  Lines 185--192: the work edge, or \<open>None\<close> where the code leaves the agent with
  \<open>continue\<close> (an empty frame, or an IndexError or ValueError caught).
\<close>

definition assign_work :: "world \<Rightarrow> string \<Rightarrow> nat \<Rightarrow> py_exn + edge option" where
  "assign_work w work_tract_geoid k =
     (case tract_geometry w work_tract_geoid of
        Inl e \<Rightarrow> (if e = IndexError \<or> e = ValueError then Inr None else Inl e)
      | Inr work_tract_geom \<Rightarrow>
          (let roads_in_work_tract = roads_in w work_tract_geom in
           if roads_in_work_tract = [] then Inr None
           else (case sample1 roads_in_work_tract k of
                   Inl e \<Rightarrow> (if e = IndexError \<or> e = ValueError then Inr None else Inl e)
                 | Inr work_edge \<Rightarrow> Inr (Some work_edge))))"

text \<open>Lines 165--229, the body of the loop over the workers of one variable.\<close>

definition simulate_agent ::
  "world \<Rightarrow> edge list \<Rightarrow> flow list \<Rightarrow> mode \<Rightarrow> (real \<times> real) option \<Rightarrow> draws \<Rightarrow>
   traffic \<Rightarrow> py_exn + traffic" where
  "simulate_agent w roads_in_home_tract od_pairs m time_window d t =
     (case sample1 roads_in_home_tract (home_pick d) of
        Inl e \<Rightarrow> Inl e
      | Inr home_edge \<Rightarrow>
          (let sleep_dur = np_uniform (u_sleep d) 5 9 in
           if m = wfh
           then Inr (wfh_day home_edge (np_normal (z_work_start d) 9 1) sleep_dur t)
           else if od_pairs = [] then Inr t
           else (case sample_weighted od_pairs (od_pick d) of
                   Inl e \<Rightarrow> Inl e
                 | Inr od \<Rightarrow>
                     (case assign_work w (w_geocode od) (work_pick d) of
                        Inl e \<Rightarrow> Inl e
                      | Inr None \<Rightarrow> Inr t
                      | Inr (Some work_edge) \<Rightarrow>
                          (case np_mean time_window of
                             Inl e \<Rightarrow> Inl e
                           | Inr mid \<Rightarrow>
                               commute_day w m home_edge work_edge
                                 (make_schedule (np_normal (z_departure d) mid 0.5)
                                    (np_uniform (u_commute d) 0.25 1.5) sleep_dur)
                                 t)))))"

subsection \<open>The loops over workers, variables and tracts\<close>

text \<open>One pass of \<open>for _ in range(num_workers)\<close>: the agent takes the next draws.\<close>

definition agent_step ::
  "world \<Rightarrow> edge list \<Rightarrow> flow list \<Rightarrow> mode \<Rightarrow> (real \<times> real) option \<Rightarrow> nat \<Rightarrow>
   sim \<Rightarrow> py_exn + sim" where
  "agent_step w roads_in_home_tract od_pairs m time_window i s =
     (case simulate_agent w roads_in_home_tract od_pairs m time_window
             (rng w (rng_pos s)) (hourly_foot_traffic s) of
        Inl e \<Rightarrow> Inl e
      | Inr t \<Rightarrow> Inr \<lparr>hourly_foot_traffic = t, rng_pos = Suc (rng_pos s)\<rparr>)"

text \<open>Lines 159--229, the body of the loop over \<open>variable_map.items()\<close>.\<close>

definition simulate_variable ::
  "world \<Rightarrow> acs_row \<Rightarrow> edge list \<Rightarrow> flow list \<Rightarrow> variable \<Rightarrow> sim \<Rightarrow> py_exn + sim" where
  "simulate_variable w home_tract roads_in_home_tract od_pairs v s =
     (case v of (var, m, time_window) \<Rightarrow>
        (let num_workers = workers home_tract var in
         if num_workers \<le> 0 then Inr s
         else for_each (agent_step w roads_in_home_tract od_pairs m time_window)
                (py_range num_workers) s))"

text \<open>Lines 144--229, the body of the loop over the rows of the ACS table.\<close>

definition simulate_tract :: "world \<Rightarrow> variable list \<Rightarrow> acs_row \<Rightarrow> sim \<Rightarrow> py_exn + sim" where
  "simulate_tract w variable_map home_tract s =
     (case tract_geometry w (GEOID home_tract) of
        Inl e \<Rightarrow> (if e = IndexError then Inr s else Inl e)
      | Inr home_tract_geom \<Rightarrow>
          (let roads_in_home_tract = roads_in w home_tract_geom in
           if roads_in_home_tract = [] then Inr s
           else (let od_pairs = filter (\<lambda>r. h_geocode r = GEOID home_tract) (lodes_data w)
                 in for_each (simulate_variable w home_tract roads_in_home_tract od_pairs)
                      variable_map s)))"


text \<open>Lines 134--135: every counter is 0 when the loop over the tracts starts.\<close>

definition start_state :: sim where
  "start_state = \<lparr>hourly_foot_traffic = no_traffic, rng_pos = 0\<rparr>"



subsection \<open>The sleep interval as the specification words it\<close>

text \<open>
  The specification places an hour in the sleep interval when it falls between
  \<open>sleep_start\<close> and \<open>sleep_start + sleep_duration\<close>, wrapping past 24: the hour is
  less than the duration away from the start, counted forwards around the clock.
\<close>

definition in_sleep_interval :: "real \<Rightarrow> real \<Rightarrow> nat \<Rightarrow> bool" where
  "in_sleep_interval sleep_start sleep_dur hour \<longleftrightarrow>
     py_mod (real hour - sleep_start) 24 < sleep_dur"

subsection \<open>A small city\<close>

text \<open>
  Two road edges, a home tract \<open>H\<close> on the first, a work tract \<open>W\<close> on the second, a
  tract \<open>E\<close> that no road crosses, one flow record from \<open>H\<close> to \<open>W\<close>, and a route over
  both edges. The draws give a sleep duration of 7, a work start at 6, a departure at the
  middle of the time window and a commute of one hour.
\<close>

definition example_draws :: draws where
  "example_draws = \<lparr>home_pick = 0, u_sleep = 1/2, z_work_start = - 3, od_pick = 0,
                     work_pick = 0, z_departure = 0, u_commute = 3/5\<rparr>"

definition late_sleeper_draws :: draws where
  "late_sleeper_draws = example_draws\<lparr>u_sleep := 7/8, z_work_start := 0\<rparr>"

definition example_world :: world where
  "example_world =
     \<lparr>edges = [(1, 2, 0), (2, 3, 0)],
      tracts_geo = (\<lambda>g. if g = ''H'' then Some [(1, 2, 0)]
                         else if g = ''W'' then Some [(2, 3, 0)]
                         else if g = ''E'' then Some [] else None),
      lodes_data = [\<lparr>h_geocode = ''H'', w_geocode = ''W'', S000 = 1\<rparr>],
      shortest_path = (\<lambda>u v. Inr [1, 2, 3]),
      route_edges = (\<lambda>p. [(1, 2, 0), (2, 3, 0)]),
      rng = (\<lambda>i. example_draws)\<rparr>"



definition example_schedule :: schedule where
  "example_schedule = make_schedule (29/4) 1 7"

definition flow_to :: "string \<Rightarrow> flow" where
  "flow_to g = \<lparr>h_geocode = ''H'', w_geocode = g, S000 = 1\<rparr>"

definition row_of :: "string \<Rightarrow> int \<Rightarrow> acs_row" where
  "row_of g n = \<lparr>GEOID = g, workers = (\<lambda>var. n)\<rparr>"

section \<open>Properties\<close>

subsection \<open>Arithmetic of the clock\<close>

lemma py_mod_range: "0 < m \<Longrightarrow> 0 \<le> py_mod x m \<and> py_mod x m < m"
proof -
  assume m: "0 < m"
  have "of_int \<lfloor>x / m\<rfloor> \<le> x / m" by (rule of_int_floor_le)
  then have "m * of_int \<lfloor>x / m\<rfloor> \<le> m * (x / m)"
    using m by (intro mult_left_mono) simp_all
  then have lo: "m * of_int \<lfloor>x / m\<rfloor> \<le> x"
    using m by simp
  have "x / m < of_int \<lfloor>x / m\<rfloor> + 1" by linarith
  then have "m * (x / m) < m * (of_int \<lfloor>x / m\<rfloor> + 1)"
    using m by (intro mult_strict_left_mono) simp_all
  then have "x < m * (of_int \<lfloor>x / m\<rfloor> + 1)"
    using m by simp
  then have hi: "x < m * of_int \<lfloor>x / m\<rfloor> + m"
    by (simp add: algebra_simps)
  show ?thesis using lo hi by (simp add: py_mod_def)
qed

lemma py_mod_small: "0 \<le> x \<Longrightarrow> x < m \<Longrightarrow> py_mod x m = x"
proof -
  assume a: "0 \<le> x" "x < m"
  then have "0 \<le> x / m" "x / m < 1" by simp_all
  then have "\<lfloor>x / m\<rfloor> = 0" by linarith
  then show ?thesis by (simp add: py_mod_def)
qed

lemma py_mod_shift: "0 < m \<Longrightarrow> m \<le> x \<Longrightarrow> x < 2 * m \<Longrightarrow> py_mod x m = x - m"
proof -
  assume a: "0 < m" "m \<le> x" "x < 2 * m"
  then have "1 \<le> x / m" "x / m < 2" by (simp_all add: pos_le_divide_eq pos_divide_less_eq)
  then have "\<lfloor>x / m\<rfloor> = 1" by linarith
  then show ?thesis by (simp add: py_mod_def)
qed

lemma py_mod_neg: "0 < m \<Longrightarrow> - m \<le> x \<Longrightarrow> x < 0 \<Longrightarrow> py_mod x m = x + m"
proof -
  assume a: "0 < m" "- m \<le> x" "x < 0"
  then have "-1 \<le> x / m" "x / m < 0" by (simp_all add: pos_le_divide_eq pos_divide_less_eq)
  then have "\<lfloor>x / m\<rfloor> = -1" by linarith
  then show ?thesis by (simp add: py_mod_def)
qed

lemma make_schedule_sleep_start:
  "0 \<le> sleep_start_hour (make_schedule departure commute sleep_dur) \<and>
   sleep_start_hour (make_schedule departure commute sleep_dur) < 24"
  using py_mod_range [of 24 "departure - sleep_dur - 1 + 24"]
  by (simp add: make_schedule_def Let_def)

subsection \<open>The accumulator\<close>

lemma credit_apply:
  "credit t hour e h' e' = t h' e' + (if h' = hour \<and> e' = e then 1 else 0)"
  by (simp add: credit_def)




subsection \<open>The sleep tests of the two kinds of agent\<close>

text \<open>
  The test of the commuting agent (lines 205--206) is the sleep interval of the
  specification, also when the interval passes midnight.
\<close>

lemma is_sleeping_interval:
  assumes "0 \<le> sleep_start_hour sc" "sleep_start_hour sc < 24"
    and "0 \<le> sleep_duration sc" "sleep_duration sc \<le> 24" and "hour < 24"
  shows "is_sleeping sc hour \<longleftrightarrow>
         in_sleep_interval (sleep_start_hour sc) (sleep_duration sc) hour"
proof (cases "sleep_start_hour sc \<le> real hour")
  case True
  with assms have "py_mod (real hour - sleep_start_hour sc) 24 = real hour - sleep_start_hour sc"
    by (intro py_mod_small) simp_all
  moreover have "sleep_start_hour sc + sleep_duration sc > 24 \<Longrightarrow>
      py_mod (sleep_start_hour sc + sleep_duration sc) 24 =
        sleep_start_hour sc + sleep_duration sc - 24"
    using assms by (intro py_mod_shift) simp_all
  ultimately show ?thesis
    using True assms by (auto simp: is_sleeping_def in_sleep_interval_def)
next
  case False
  with assms have "py_mod (real hour - sleep_start_hour sc) 24 =
      real hour - sleep_start_hour sc + 24"
    by (intro py_mod_neg) simp_all
  moreover have "sleep_start_hour sc + sleep_duration sc > 24 \<Longrightarrow>
      py_mod (sleep_start_hour sc + sleep_duration sc) 24 =
        sleep_start_hour sc + sleep_duration sc - 24"
    using assms by (intro py_mod_shift) simp_all
  ultimately show ?thesis
    using False assms by (auto simp: is_sleeping_def in_sleep_interval_def)
qed

lemma commuter_asleep_iff:
  assumes "0 \<le> sleep_dur" "sleep_dur \<le> 24" "hour < 24"
  shows "hour_state (make_schedule departure commute sleep_dur) hour = asleep \<longleftrightarrow>
         in_sleep_interval (sleep_start_hour (make_schedule departure commute sleep_dur))
           sleep_dur hour"
proof -
  let ?sc = "make_schedule departure commute sleep_dur"
  have d: "sleep_duration ?sc = sleep_dur" by (simp add: make_schedule_def Let_def)
  have "hour_state ?sc hour = asleep \<longleftrightarrow> is_sleeping ?sc hour"
    by (simp add: hour_state_def)
  also have "\<dots> \<longleftrightarrow> in_sleep_interval (sleep_start_hour ?sc) (sleep_duration ?sc) hour"
    using make_schedule_sleep_start [of departure commute sleep_dur] assms d
    by (intro is_sleeping_interval) simp_all
  finally show ?thesis by (simp add: d)
qed

text \<open>
  The test of the work-from-home agent (line 176) is the sleep interval only while the
  interval ends before midnight; once it reaches midnight no hour passes the test.
\<close>

lemma wfh_asleep_no_wrap:
  assumes "0 \<le> ss" "0 \<le> sd" "ss + sd < 24" "hour < 24"
  shows "wfh_asleep ss sd hour \<longleftrightarrow> in_sleep_interval ss sd hour"
proof -
  have m: "py_mod (ss + sd) 24 = ss + sd"
    using assms by (intro py_mod_small) simp_all
  show ?thesis
  proof (cases "ss \<le> real hour")
    case True
    with assms have "py_mod (real hour - ss) 24 = real hour - ss"
      by (intro py_mod_small) simp_all
    then show ?thesis using True m by (auto simp: wfh_asleep_def in_sleep_interval_def)
  next
    case False
    with assms have "py_mod (real hour - ss) 24 = real hour - ss + 24"
      by (intro py_mod_neg) simp_all
    then show ?thesis using False m assms by (auto simp: wfh_asleep_def in_sleep_interval_def)
  qed
qed

lemma wfh_asleep_wrap:
  assumes "ss < 24" "sd \<le> 24" "24 \<le> ss + sd"
  shows "\<not> wfh_asleep ss sd hour"
proof -
  have "py_mod (ss + sd) 24 = ss + sd - 24"
    using assms by (intro py_mod_shift) simp_all
  then show ?thesis using assms by (auto simp: wfh_asleep_def)
qed

lemma wfh_hours_apply:
  "distinct hs \<Longrightarrow>
   fold (wfh_hour home_edge ss sd) hs t h e =
     t h e + (if h \<in> set hs \<and> e = home_edge \<and> \<not> wfh_asleep ss sd h then 1 else 0)"
proof (induction hs arbitrary: t)
  case Nil
  then show ?case by simp
next
  case (Cons a hs)
  then show ?case by (auto simp: wfh_hour_def credit_apply)
qed

lemma wfh_day_apply:
  "wfh_day home_edge work_start sd t h e =
     t h e + (if h < 24 \<and> e = home_edge \<and> \<not> wfh_asleep (wfh_sleep_start work_start sd) sd h
              then 1 else 0)"
  unfolding wfh_day_def by (subst wfh_hours_apply) auto

text \<open>A work-from-home agent credits no edge but the home edge.\<close>

lemma wfh_day_other_edge: "e \<noteq> home_edge \<Longrightarrow> wfh_day home_edge work_start sd t h e = t h e"
  by (simp add: wfh_day_apply)

text \<open>
  When the agent falls asleep before midnight, meaning \<open>work_start - sd - 1 < 0\<close>, the
  home edge is credited in all 24 hours.
\<close>

lemma wfh_day_wrap_all_hours:
  assumes "1 \<le> work_start" "work_start - sd - 1 < 0" "sd \<le> 24" "h < 24"
  shows "wfh_day home_edge work_start sd t h home_edge = t h home_edge + 1"
proof -
  have s: "wfh_sleep_start work_start sd = work_start - sd - 1 + 24"
    unfolding wfh_sleep_start_def using assms by (intro py_mod_small) simp_all
  have "\<not> wfh_asleep (wfh_sleep_start work_start sd) sd h"
    using assms by (intro wfh_asleep_wrap) (simp_all add: s)
  with assms show ?thesis by (simp add: wfh_day_apply)
qed

subsection \<open>The hours of a commuting agent\<close>

lemma commute_hour_by_state:
  "commute_hour w m home_edge work_edge sc hour t =
     (case hour_state sc hour of
        asleep \<Rightarrow> Inr t
      | at_home \<Rightarrow> Inr (credit t hour home_edge)
      | at_work \<Rightarrow> Inr (credit t hour work_edge)
      | commuting_out \<Rightarrow>
          (if m = walk \<or> m = other then walk_commute w home_edge work_edge hour t
           else if m = transit then Inr (credit (credit t hour home_edge) hour work_edge)
           else Inr t)
      | commuting_back \<Rightarrow> Inr t)"
  by (simp add: commute_hour_def hour_state_def)

text \<open>
  The hours that reach no branch are the hours of the way back, from
  \<open>return_departure\<close> to \<open>return_arrival\<close>.
\<close>

lemma commuting_back_iff:
  "hour_state sc hour = commuting_back \<longleftrightarrow>
     \<not> is_sleeping sc hour \<and> departure_hour sc \<le> real hour \<and> arrival_hour sc \<le> real hour \<and>
     return_departure sc \<le> real hour \<and> real hour < return_arrival sc"
  by (auto simp: hour_state_def)

lemma commuting_out_iff:
  "hour_state sc hour = commuting_out \<longleftrightarrow>
     \<not> is_sleeping sc hour \<and> departure_hour sc \<le> real hour \<and> real hour < arrival_hour sc \<and>
     real hour < return_arrival sc"
  by (auto simp: hour_state_def)

lemma example_day:
  "map (hour_state example_schedule) [0..<24] =
     [asleep, asleep, asleep, asleep, asleep, asleep, asleep, at_home, commuting_out,
      at_work, at_work, at_work, at_work, at_work, at_work, at_work, at_work, commuting_back,
      at_home, at_home, at_home, at_home, at_home, at_home]"
  by code_simp

lemma example_hour_8: "hour_state example_schedule 8 = commuting_out"
  by code_simp

lemma example_hour_17: "hour_state example_schedule 17 = commuting_back"
  by code_simp

subsection \<open>No step lowers a counter\<close>












subsection \<open>Agents that cannot be placed\<close>

lemma simulate_tract_home_unresolved:
  assumes "tracts_geo w (GEOID row) = None \<or>
           (\<exists>g. tracts_geo w (GEOID row) = Some g \<and> roads_in w g = [])"
  shows "simulate_tract w vm row s = Inr s"
  using assms by (auto simp: simulate_tract_def tract_geometry_def)

lemma assign_work_unresolved:
  assumes "tracts_geo w geoid = None \<or> (\<exists>g. tracts_geo w geoid = Some g \<and> roads_in w g = [])"
  shows "assign_work w geoid k = Inr None"
  using assms by (auto simp: assign_work_def tract_geometry_def)

lemma simulate_agent_work_unresolved:
  assumes "m \<noteq> wfh" and "roads \<noteq> []"
    and "od = [] \<or>
         (\<exists>r. sample_weighted od (od_pick d) = Inr r \<and>
              (tracts_geo w (w_geocode r) = None \<or>
               (\<exists>g. tracts_geo w (w_geocode r) = Some g \<and> roads_in w g = [])))"
  shows "simulate_agent w roads od m tw d t = Inr t"
proof (cases "od = []")
  case True
  with assms show ?thesis by (simp add: simulate_agent_def sample1_def Let_def)
next
  case False
  with assms obtain r where r: "sample_weighted od (od_pick d) = Inr r"
    and u: "tracts_geo w (w_geocode r) = None \<or>
            (\<exists>g. tracts_geo w (w_geocode r) = Some g \<and> roads_in w g = [])"
    by auto
  have "assign_work w (w_geocode r) (work_pick d) = Inr None"
    using u by (rule assign_work_unresolved)
  with assms False r show ?thesis by (simp add: simulate_agent_def sample1_def Let_def)
qed


section \<open>The claims\<close>

subsection \<open>C1 and C2: the day of a work-from-home agent\<close>

text \<open>
  Claim C1: every agent is in exactly one of the five states in every hour from 0 to 23,
  the five sets of hours partition the day, also when the sleep interval passes
  midnight, and a sleep start at 22 with a duration of 7 gives the asleep hours
  22, 23, 0, 1, 2, 3, 4.

  The loop of the commuting agent does this (\<open>is_sleeping_interval\<close>,
  \<open>commuter_asleep_iff\<close>, \<open>commuting_back_iff\<close>). The loop of the work-from-home agent
  (lines 175--177) does not: with a work start at 6 and a sleep duration of 7 the sleep
  starts at 22, the test of line 176 compares the hour with \<open>29 % 24 = 5\<close>, no hour
  lies between 22 and 5, and the agent is awake at home in all 24 hours, the seven
  hours of the sleep interval among them.
\<close>

theorem wfh_sleep_wrap_never_asleep:
  "np_normal (z_work_start example_draws) 9 1 = 6 \<and>
   np_uniform (u_sleep example_draws) 5 9 = 7 \<and>
   wfh_sleep_start 6 7 = 22 \<and>
   filter (in_sleep_interval 22 7) [0..<24] = [0, 1, 2, 3, 4, 22, 23] \<and>
   filter (is_sleeping (make_schedule 6 1 7)) [0..<24] = [0, 1, 2, 3, 4, 22, 23] \<and>
   filter (wfh_asleep 22 7) [0..<24] = [] \<and>
   map_sum id (\<lambda>t. filter (\<lambda>h. t h (1, 2, 0) = 0) [0..<24])
     (simulate_agent example_world [(1, 2, 0)] [] wfh None example_draws no_traffic) = Inr []"
  by code_simp

text \<open>
  Claim C2: a work-from-home agent never credits a work edge, and its home-edge credits
  are as many as the hours of the day outside its sleep interval, also when the
  interval passes midnight.

  No edge but the home edge is credited (\<open>wfh_day_other_edge\<close>), and the count is right
  while the sleep interval ends before midnight (\<open>wfh_asleep_no_wrap\<close>). It is wrong
  whenever the interval reaches midnight (\<open>wfh_day_wrap_all_hours\<close>): with a work start
  at 9 and a sleep duration of 8.5 the sleep starts at 23.5, 16 hours lie outside the
  sleep interval, and the home edge is credited 24 times.
\<close>

theorem wfh_wrap_credits_all_hours:
  "np_normal (z_work_start late_sleeper_draws) 9 1 = 9 \<and>
   np_uniform (u_sleep late_sleeper_draws) 5 9 = 17/2 \<and>
   wfh_sleep_start 9 (17/2) = 47/2 \<and>
   length (filter (\<lambda>h. \<not> in_sleep_interval (47/2) (17/2) h) [0..<24]) = 16 \<and>
   map_sum id
     (\<lambda>t. (sum_list (map (\<lambda>h. t h (1, 2, 0)) [0..<24]),
           sum_list (map (\<lambda>h. t h (2, 3, 0)) [0..<24])))
     (simulate_agent example_world [(1, 2, 0)] (lodes_data example_world) wfh None
        late_sleeper_draws no_traffic) = Inr (24, 0)"
  by code_simp

subsection \<open>C3: the route of a walking agent\<close>




subsection \<open>C4: driving agents on the way\<close>

text \<open>
  Claim C4: for the modes drive and carpool, an hour of the way out or of the way back
  credits nothing: the counters of every hour and edge are what they were.
\<close>

theorem drive_carpool_commute_no_credit:
  assumes "m = drive \<or> m = carpool"
    and "hour_state sc hour = commuting_out \<or> hour_state sc hour = commuting_back"
  shows "commute_hour w m home_edge work_edge sc hour t = Inr t"
  using assms by (auto simp: commute_hour_by_state)

theorem drive_carpool_commute_no_credit_witness:
  "(drive = drive \<or> drive = carpool) \<and>
   (hour_state example_schedule 8 = commuting_out \<or>
    hour_state example_schedule 8 = commuting_back) \<and>
   commute_hour example_world drive (1, 2, 0) (2, 3, 0) example_schedule 8 no_traffic =
     Inr no_traffic \<and>
   (carpool = drive \<or> carpool = carpool) \<and>
   (hour_state example_schedule 17 = commuting_out \<or>
    hour_state example_schedule 17 = commuting_back) \<and>
   commute_hour example_world carpool (1, 2, 0) (2, 3, 0) example_schedule 17 no_traffic =
     Inr no_traffic"
  using drive_carpool_commute_no_credit [of drive example_schedule 8 example_world
      "(1, 2, 0)" "(2, 3, 0)" no_traffic]
    drive_carpool_commute_no_credit [of carpool example_schedule 17 example_world
      "(1, 2, 0)" "(2, 3, 0)" no_traffic]
    example_hour_8 example_hour_17
  by simp

subsection \<open>C5: no route\<close>




subsection \<open>C6: transit agents on the way\<close>




subsection \<open>C7: the counters and the table\<close>



subsection \<open>C9: agents that cannot be placed\<close>

text \<open>
  Claim C9: an agent whose home tract has no geometry or no road edge, or whose work
  cannot be placed because the home tract has no flow record, the work tract has no
  geometry or the work tract has no road edge, leaves every counter as it was, and the
  simulation goes on with the next agent or tract and raises nothing.

  A home tract that cannot be resolved ends the pass of the loop over the tracts for all
  its agents. The work of an agent is looked for when its mode is not work-from-home;
  such an agent ends its pass of the loop over the workers with the counters unchanged,
  and the loop goes on with the rest.
\<close>

theorem unplaced_agent_no_credit:
  "(tracts_geo w (GEOID row) = None \<or>
    (\<exists>g. tracts_geo w (GEOID row) = Some g \<and> roads_in w g = []) \<longrightarrow>
      simulate_tract w vm row s = Inr s \<and>
      for_each (simulate_tract w vm) (row # rows) s = for_each (simulate_tract w vm) rows s) \<and>
   (m \<noteq> wfh \<and> roads \<noteq> [] \<and>
    (od = [] \<or>
     (\<exists>r. sample_weighted od (od_pick (rng w (rng_pos s))) = Inr r \<and>
          (tracts_geo w (w_geocode r) = None \<or>
           (\<exists>g. tracts_geo w (w_geocode r) = Some g \<and> roads_in w g = [])))) \<longrightarrow>
      simulate_agent w roads od m tw (rng w (rng_pos s)) (hourly_foot_traffic s) =
        Inr (hourly_foot_traffic s) \<and>
      agent_step w roads od m tw i s = Inr (s\<lparr>rng_pos := Suc (rng_pos s)\<rparr>) \<and>
      for_each (agent_step w roads od m tw) (i # js) s =
        for_each (agent_step w roads od m tw) js (s\<lparr>rng_pos := Suc (rng_pos s)\<rparr>))"
proof (intro conjI impI)
  assume "tracts_geo w (GEOID row) = None \<or>
    (\<exists>g. tracts_geo w (GEOID row) = Some g \<and> roads_in w g = [])"
  then show t: "simulate_tract w vm row s = Inr s" by (rule simulate_tract_home_unresolved)
  then show "for_each (simulate_tract w vm) (row # rows) s = for_each (simulate_tract w vm) rows s"
    by simp
next
  assume "m \<noteq> wfh \<and> roads \<noteq> [] \<and>
    (od = [] \<or>
     (\<exists>r. sample_weighted od (od_pick (rng w (rng_pos s))) = Inr r \<and>
          (tracts_geo w (w_geocode r) = None \<or>
           (\<exists>g. tracts_geo w (w_geocode r) = Some g \<and> roads_in w g = []))))"
  then show a: "simulate_agent w roads od m tw (rng w (rng_pos s)) (hourly_foot_traffic s) =
      Inr (hourly_foot_traffic s)"
    by (intro simulate_agent_work_unresolved) simp_all
  then show b: "agent_step w roads od m tw i s = Inr (s\<lparr>rng_pos := Suc (rng_pos s)\<rparr>)"
    by (simp add: agent_step_def)
  then show "for_each (agent_step w roads od m tw) (i # js) s =
      for_each (agent_step w roads od m tw) js (s\<lparr>rng_pos := Suc (rng_pos s)\<rparr>)"
    by simp
qed

theorem unplaced_agent_no_credit_witness:
  "tracts_geo example_world (GEOID (row_of ''X'' 1)) = None \<and>
   simulate_tract example_world define_acs_variables (row_of ''X'' 1) start_state =
     Inr start_state \<and>
   tracts_geo example_world (GEOID (row_of ''E'' 1)) = Some [] \<and>
   roads_in example_world [] = [] \<and>
   simulate_tract example_world define_acs_variables (row_of ''E'' 1) start_state =
     Inr start_state \<and>
   agent_step example_world [(1, 2, 0)] [] drive (Some (7, 15/2)) 0 start_state =
     Inr (start_state\<lparr>rng_pos := Suc (rng_pos start_state)\<rparr>) \<and>
   sample_weighted [flow_to ''X''] (od_pick (rng example_world (rng_pos start_state))) =
     Inr (flow_to ''X'') \<and>
   tracts_geo example_world (w_geocode (flow_to ''X'')) = None \<and>
   agent_step example_world [(1, 2, 0)] [flow_to ''X''] walk (Some (7, 15/2)) 0 start_state =
     Inr (start_state\<lparr>rng_pos := Suc (rng_pos start_state)\<rparr>) \<and>
   sample_weighted [flow_to ''E''] (od_pick (rng example_world (rng_pos start_state))) =
     Inr (flow_to ''E'') \<and>
   tracts_geo example_world (w_geocode (flow_to ''E'')) = Some [] \<and>
   agent_step example_world [(1, 2, 0)] [flow_to ''E''] transit (Some (7, 15/2)) 0 start_state =
     Inr (start_state\<lparr>rng_pos := Suc (rng_pos start_state)\<rparr>)"
proof -
  have x: "tracts_geo example_world (GEOID (row_of ''X'' 1)) = None" by code_simp
  have e: "tracts_geo example_world (GEOID (row_of ''E'' 1)) = Some []" by code_simp
  have n: "roads_in example_world [] = []" by code_simp
  have fx: "sample_weighted [flow_to ''X''] (od_pick (rng example_world (rng_pos start_state))) =
      Inr (flow_to ''X'')"
    by (simp add: sample_weighted_def flow_to_def)
  have fe: "sample_weighted [flow_to ''E''] (od_pick (rng example_world (rng_pos start_state))) =
      Inr (flow_to ''E'')"
    by (simp add: sample_weighted_def flow_to_def)
  have wx: "tracts_geo example_world (w_geocode (flow_to ''X'')) = None" by code_simp
  have we: "tracts_geo example_world (w_geocode (flow_to ''E'')) = Some []" by code_simp
  note unplaced_agent_no_credit [of example_world "row_of ''X'' 1" define_acs_variables
      start_state "[]" drive "[(1, 2, 0)]" "[]" "Some (7, 15/2)" 0 "[]"]
    unplaced_agent_no_credit [of example_world "row_of ''E'' 1" define_acs_variables
      start_state "[]" walk "[(1, 2, 0)]" "[flow_to ''X'']" "Some (7, 15/2)" 0 "[]"]
    unplaced_agent_no_credit [of example_world "row_of ''E'' 1" define_acs_variables
      start_state "[]" transit "[(1, 2, 0)]" "[flow_to ''E'']" "Some (7, 15/2)" 0 "[]"]
  with x e n fx fe wx we show ?thesis by simp
qed

subsection \<open>C10: variables without workers\<close>



end
